theory Spec2Isabelle
  imports Complex_Main "HOL-Library.Sublist" "HOL-Library.Multiset" "HOL-Library.AList"
begin

section \<open>Content merging on append (enhanced\_knowledge\_service.py)\<close>

text \<open>
  Python strings are modelled as \<open>string\<close>; every operation used below (\<open>in\<close>,
  slicing, \<open>len\<close>, \<open>+\<close>) acts on the sequence of characters only.

  \<^verbatim>\<open>new in existing\<close> is the substring test: some suffix of \<open>existing\<close> starts
  with \<open>new\<close>.
\<close>

fun str_contains :: "string \<Rightarrow> string \<Rightarrow> bool" where
  "str_contains [] new = (new = [])"
| "str_contains (c # cs) new = (prefix new (c # cs) \<or> str_contains cs new)"

text \<open>
  \<^verbatim>\<open>
  def find_overlap(self, text1, text2):
      max_overlap = min(len(text1), len(text2))
      for i in range(max_overlap, 0, -1):
          if text1[-i:] == text2[:i]:
              return text2[:i]
      return ""
  \<close>
  The loop counts \<open>i\<close> down from \<open>max_overlap\<close> to 1. For \<open>1 \<le> i \<le> len(text1)\<close>
  the slice \<open>text1[-i:]\<close> is the last \<open>i\<close> characters.
\<close>

fun find_overlap_from :: "nat \<Rightarrow> string \<Rightarrow> string \<Rightarrow> string" where
  "find_overlap_from 0 text1 text2 = []"
| "find_overlap_from (Suc i) text1 text2 =
     (if drop (length text1 - Suc i) text1 = take (Suc i) text2 then take (Suc i) text2
      else find_overlap_from i text1 text2)"

definition find_overlap :: "string \<Rightarrow> string \<Rightarrow> string" where
  "find_overlap text1 text2 =
     (let max_overlap = min (length text1) (length text2)
      in find_overlap_from max_overlap text1 text2)"

definition content_separator :: string where
  "content_separator = [CHR 0x0A, CHR 0x0A, CHR ''-'', CHR ''-'', CHR ''-'', CHR 0x0A, CHR 0x0A]"

text \<open>
  \<^verbatim>\<open>
  def merge_content(self, existing, new):
      if new in existing:
          return existing
      overlap = self.find_overlap(existing, new)
      if len(overlap) > len(new) * 0.5:
          return existing + new[len(overlap):]
      else:
          return existing + "\n\n---\n\n" + new
  \<close>
  \<open>len(overlap) > len(new) * 0.5\<close> compares an integer with half an integer; it is
  written here without the division as \<open>length new < 2 * length overlap\<close>.
\<close>

definition merge_content :: "string \<Rightarrow> string \<Rightarrow> string" where
  "merge_content existing new =
     (if str_contains existing new then existing
      else let overlap = find_overlap existing new
           in if length new < 2 * length overlap
              then existing @ drop (length overlap) new
              else existing @ content_separator @ new)"

section \<open>Entity models (models/entities.py)\<close>

datatype EntityType =
  PERSON | ORGANIZATION | PROJECT | SKILL | LOCATION | EVENT | CONCEPT | DOCUMENT | TASK | GOAL

datatype RelationType =
  WORKS_AT | KNOWS | LOCATED_IN | PART_OF | RELATED_TO | CREATED_BY | MANAGES | REPORTS_TO
  | COLLABORATES_WITH | DEPENDS_ON

datatype ConfidenceLevel = VERIFIED | HIGH | MEDIUM | LOW | UNCERTAIN

text \<open>
  \<open>ConfidenceLevel\<close> is a \<^verbatim>\<open>(str, Enum)\<close>: the \<^verbatim>\<open>.value\<close> of a member is its string.
\<close>

fun ConfidenceLevel_value :: "ConfidenceLevel \<Rightarrow> string" where
  "ConfidenceLevel_value VERIFIED = ''verified''"
| "ConfidenceLevel_value HIGH = ''high''"
| "ConfidenceLevel_value MEDIUM = ''medium''"
| "ConfidenceLevel_value LOW = ''low''"
| "ConfidenceLevel_value UNCERTAIN = ''uncertain''"

text \<open>
  Python compares two \<^verbatim>\<open>str\<close> values with \<open><\<close> lexicographically, character by
  character on the code points; a proper prefix is the smaller string.
\<close>

fun str_less :: "string \<Rightarrow> string \<Rightarrow> bool" where
  "str_less [] [] = False"
| "str_less [] (y # ys) = True"
| "str_less (x # xs) [] = False"
| "str_less (x # xs) (y # ys) =
     (if (of_char x :: nat) < of_char y then True
      else if (of_char y :: nat) < of_char x then False
      else str_less xs ys)"

text \<open>
  The ordinal order the documentation speaks of, verified > high > medium > low > uncertain,
  as ranks. No function of the source computes it; it serves to state properties.
\<close>

fun ConfidenceLevel_rank :: "ConfidenceLevel \<Rightarrow> nat" where
  "ConfidenceLevel_rank VERIFIED = 4"
| "ConfidenceLevel_rank HIGH = 3"
| "ConfidenceLevel_rank MEDIUM = 2"
| "ConfidenceLevel_rank LOW = 1"
| "ConfidenceLevel_rank UNCERTAIN = 0"

text \<open>
  A \<^verbatim>\<open>datetime\<close> is a point on a linear time axis. Every \<^verbatim>\<open>datetime.utcnow()\<close>
  of the source is the parameter \<open>now\<close> of the function that calls it: one clock reading
  serves the whole call.
\<close>

type_synonym datetime = nat

datatype py_error = ValueError | KeyError | OperationalError

record 'v Attribute =
  attr_key :: string
  attr_value :: 'v
  attr_confidence :: ConfidenceLevel
  attr_source :: string
  attr_timestamp :: datetime
  attr_version :: int

text \<open>
  A \<^verbatim>\<open>Dict[str, List[Attribute]]\<close> is an association list in insertion order, read
  with \<open>map_of\<close> and written with \<open>AList.update\<close> (replace in place, or append a new
  key at the end), as a Python dict behaves.
\<close>

type_synonym 'v attributes = "(string \<times> 'v Attribute list) list"

record 'v Entity =
  ent_id :: string
  ent_type :: EntityType
  ent_name :: string
  ent_aliases :: "string list"
  ent_attributes :: "'v attributes"
  ent_embeddings :: "rat list option"
  ent_canonical_file :: "string option"
  ent_confidence :: ConfidenceLevel
  ent_created_at :: datetime
  ent_updated_at :: datetime
  ent_sources :: "string list"

text \<open>
  The keyword arguments of \<^verbatim>\<open>Entity(...)\<close>: \<open>id\<close>, \<open>type\<close> and \<open>name\<close> are
  required, every other field may be left out (\<open>None\<close> here) and then takes its default.
\<close>

record 'v Entity_kwargs =
  kw_id :: string
  kw_type :: EntityType
  kw_name :: string
  kw_aliases :: "string list option"
  kw_attributes :: "'v attributes option"
  kw_embeddings :: "rat list option"
  kw_canonical_file :: "string option"
  kw_confidence :: "ConfidenceLevel option"
  kw_created_at :: "datetime option"
  kw_updated_at :: "datetime option"
  kw_sources :: "string list option"

text \<open>
  \<^verbatim>\<open>
  @validator('updated_at', pre=True, always=True)
  def set_updated_at(cls, v):
      return datetime.utcnow()
  \<close>
  \<open>always=True\<close> runs the validator whether or not the caller gave a value; \<open>v\<close> is the
  value given, if any.
\<close>

definition set_updated_at :: "datetime \<Rightarrow> datetime option \<Rightarrow> datetime" where
  "set_updated_at now v = now"

definition default_to :: "'a \<Rightarrow> 'a option \<Rightarrow> 'a" where
  "default_to d v = (case v of None \<Rightarrow> d | Some x \<Rightarrow> x)"

definition Entity_init :: "datetime \<Rightarrow> 'v Entity_kwargs \<Rightarrow> 'v Entity" where
  "Entity_init now kw =
     \<lparr> ent_id = kw_id kw,
       ent_type = kw_type kw,
       ent_name = kw_name kw,
       ent_aliases = default_to [] (kw_aliases kw),
       ent_attributes = default_to [] (kw_attributes kw),
       ent_embeddings = kw_embeddings kw,
       ent_canonical_file = kw_canonical_file kw,
       ent_confidence = default_to HIGH (kw_confidence kw),
       ent_created_at = default_to now (kw_created_at kw),
       ent_updated_at = set_updated_at now (kw_updated_at kw),
       ent_sources = default_to [] (kw_sources kw) \<rparr>"

text \<open>\<^verbatim>\<open>entity.dict()\<close>: every field of the instance, as keyword arguments.\<close>

definition Entity_dict :: "'v Entity \<Rightarrow> 'v Entity_kwargs" where
  "Entity_dict e =
     \<lparr> kw_id = ent_id e,
       kw_type = ent_type e,
       kw_name = ent_name e,
       kw_aliases = Some (ent_aliases e),
       kw_attributes = Some (ent_attributes e),
       kw_embeddings = ent_embeddings e,
       kw_canonical_file = ent_canonical_file e,
       kw_confidence = Some (ent_confidence e),
       kw_created_at = Some (ent_created_at e),
       kw_updated_at = Some (ent_updated_at e),
       kw_sources = Some (ent_sources e) \<rparr>"

text \<open>
  \<^verbatim>\<open>
  def add_attribute(self, key, value, source="user", confidence=ConfidenceLevel.HIGH):
      if key not in self.attributes:
          self.attributes[key] = []
      existing = next((attr for attr in self.attributes[key]
                      if attr.value == value), None)
      if existing:
          if confidence.value > existing.confidence.value:
              existing.confidence = confidence
          existing.timestamp = datetime.utcnow()
      else:
          self.attributes[key].append(
              Attribute(key=key, value=value, source=source, confidence=confidence))
  \<close>
  \<open>existing\<close> is the first version with the value; it is changed in place, which
  \<open>update_first\<close> does on the list. \<open>confidence.value\<close> is a string, so the comparison is the
  string comparison. A new \<open>Attribute\<close> takes the defaults \<open>timestamp = utcnow()\<close> and
  \<open>version = 1\<close>.
\<close>

fun update_first :: "('a \<Rightarrow> bool) \<Rightarrow> ('a \<Rightarrow> 'a) \<Rightarrow> 'a list \<Rightarrow> 'a list" where
  "update_first P f [] = []"
| "update_first P f (x # xs) = (if P x then f x # xs else x # update_first P f xs)"

definition versions_of :: "'v attributes \<Rightarrow> string \<Rightarrow> 'v Attribute list" where
  "versions_of attributes key = (case map_of attributes key of None \<Rightarrow> [] | Some vs \<Rightarrow> vs)"

definition reobserve :: "datetime \<Rightarrow> ConfidenceLevel \<Rightarrow> 'v Attribute \<Rightarrow> 'v Attribute" where
  "reobserve now confidence existing =
     (let existing1 =
            (if str_less (ConfidenceLevel_value (attr_confidence existing))
                         (ConfidenceLevel_value confidence)
             then existing\<lparr>attr_confidence := confidence\<rparr> else existing)
      in existing1\<lparr>attr_timestamp := now\<rparr>)"

definition add_attribute ::
  "datetime \<Rightarrow> 'v Entity \<Rightarrow> string \<Rightarrow> 'v \<Rightarrow> string \<Rightarrow> ConfidenceLevel \<Rightarrow> 'v Entity" where
  "add_attribute now self key val source confidence =
     (let attributes0 =
            (if map_of (ent_attributes self) key = None
             then AList.update key [] (ent_attributes self) else ent_attributes self);
          versions = versions_of attributes0 key
      in case find (\<lambda>attr. attr_value attr = val) versions of
           Some existing \<Rightarrow>
             self\<lparr>ent_attributes :=
               AList.update key
                 (update_first (\<lambda>attr. attr_value attr = val) (reobserve now confidence) versions)
                 attributes0\<rparr>
         | None \<Rightarrow>
             self\<lparr>ent_attributes :=
               AList.update key
                 (versions @ [\<lparr>attr_key = key, attr_value = val, attr_confidence = confidence,
                               attr_source = source, attr_timestamp = now, attr_version = 1\<rparr>])
                 attributes0\<rparr>)"

text \<open>
  \<^verbatim>\<open>
  def get_best_attribute(self, key):
      if key not in self.attributes or not self.attributes[key]:
          return None
      return max(self.attributes[key], key=lambda x: (x.confidence.value, x.timestamp))
  \<close>
  Python's \<open>max\<close> raises \<open>ValueError\<close> on an empty sequence and otherwise returns the
  first element whose key no other element exceeds: the running best is replaced only by
  a strictly greater key. Two tuples compare by their first components where these
  differ, and by the second ones otherwise.
\<close>

fun py_max_from :: "('a \<Rightarrow> 'a \<Rightarrow> bool) \<Rightarrow> 'a \<Rightarrow> 'a list \<Rightarrow> 'a" where
  "py_max_from key_less best [] = best"
| "py_max_from key_less best (x # xs) =
     py_max_from key_less (if key_less best x then x else best) xs"

fun py_max :: "('a \<Rightarrow> 'a \<Rightarrow> bool) \<Rightarrow> 'a list \<Rightarrow> py_error + 'a" where
  "py_max key_less [] = Inl ValueError"
| "py_max key_less (x # xs) = Inr (py_max_from key_less x xs)"

definition best_key_less :: "'v Attribute \<Rightarrow> 'v Attribute \<Rightarrow> bool" where
  "best_key_less a b =
     (if ConfidenceLevel_value (attr_confidence a) \<noteq> ConfidenceLevel_value (attr_confidence b)
      then str_less (ConfidenceLevel_value (attr_confidence a))
                    (ConfidenceLevel_value (attr_confidence b))
      else attr_timestamp a < attr_timestamp b)"

definition get_best_attribute :: "'v Entity \<Rightarrow> string \<Rightarrow> py_error + 'v Attribute option" where
  "get_best_attribute self key =
     (case map_of (ent_attributes self) key of
        None \<Rightarrow> Inr None
      | Some [] \<Rightarrow> Inr None
      | Some (a # as) \<Rightarrow> map_sum id Some (py_max best_key_less (a # as)))"

record 'v Relationship =
  rel_id :: string
  rel_type :: RelationType
  rel_source_entity_id :: string
  rel_target_entity_id :: string
  rel_attributes :: "(string \<times> 'v) list"
  rel_confidence :: ConfidenceLevel
  rel_temporal_context :: "string option"
  rel_created_at :: datetime
  rel_updated_at :: datetime
  rel_source :: string

section \<open>Knowledge graph manager (services/knowledge\_graph.py)\<close>

text \<open>
  The manager's state: \<open>self.entities\<close>, a dict read and written by entity id only, and
  \<open>self.relationships\<close>, a list. An entity object that a method changes in place is the
  one stored under its id, so the change is written back to the store.
\<close>

type_synonym 'v entities = "string \<rightharpoonup> 'v Entity"







text \<open>
  \<^verbatim>\<open>
  async def add_relationship(self, relationship):
      existing = next(
          (r for r in self.relationships
           if r.source_entity_id == relationship.source_entity_id
           and r.target_entity_id == relationship.target_entity_id
           and r.type == relationship.type), None)
      if not existing:
          self.relationships.append(relationship)
      else:
          if relationship.confidence.value > existing.confidence.value:
              existing.confidence = relationship.confidence
          existing.updated_at = datetime.utcnow()
  \<close>
\<close>

definition same_triple :: "'v Relationship \<Rightarrow> 'v Relationship \<Rightarrow> bool" where
  "same_triple relationship r \<longleftrightarrow>
     rel_source_entity_id r = rel_source_entity_id relationship
     \<and> rel_target_entity_id r = rel_target_entity_id relationship
     \<and> rel_type r = rel_type relationship"

definition reobserve_relationship ::
  "datetime \<Rightarrow> 'v Relationship \<Rightarrow> 'v Relationship \<Rightarrow> 'v Relationship" where
  "reobserve_relationship now relationship existing =
     (let existing1 =
            (if str_less (ConfidenceLevel_value (rel_confidence existing))
                         (ConfidenceLevel_value (rel_confidence relationship))
             then existing\<lparr>rel_confidence := rel_confidence relationship\<rparr> else existing)
      in existing1\<lparr>rel_updated_at := now\<rparr>)"

definition add_relationship ::
  "datetime \<Rightarrow> 'v Relationship list \<Rightarrow> 'v Relationship \<Rightarrow> 'v Relationship list" where
  "add_relationship now relationships relationship =
     (case find (same_triple relationship) relationships of
        None \<Rightarrow> relationships @ [relationship]
      | Some existing \<Rightarrow>
          update_first (same_triple relationship) (reobserve_relationship now relationship)
            relationships)"

text \<open>
  \<^verbatim>\<open>
  self.canonical_mappings = {
      EntityType.PERSON: {"work": "Professional Journey.md",
                          "personal": "Personal Info.md",
                          "projects": "Projects.md"},
      EntityType.ORGANIZATION: {"default": "Professional Journey.md"},
      EntityType.PROJECT: {"default": "Projects.md"}}
  \<close>
\<close>

definition canonical_mappings :: "EntityType \<rightharpoonup> (string \<rightharpoonup> string)" where
  "canonical_mappings =
     [PERSON \<mapsto> [''work'' \<mapsto> ''Professional Journey.md'',
                  ''personal'' \<mapsto> ''Personal Info.md'',
                  ''projects'' \<mapsto> ''Projects.md''],
      ORGANIZATION \<mapsto> [''default'' \<mapsto> ''Professional Journey.md''],
      PROJECT \<mapsto> [''default'' \<mapsto> ''Projects.md'']]"

text \<open>
  \<^verbatim>\<open>
  async def determine_canonical_locations(self, entities):
      file_mappings = {}
      for entity in entities:
          if entity.type in self.canonical_mappings:
              mappings = self.canonical_mappings[entity.type]
              if entity.type == EntityType.PERSON:
                  work_attrs = ["job", "position", "company", "work"]
                  personal_attrs = ["family", "hobby", "personal"]
                  has_work = any(key in entity.attributes for key in work_attrs)
                  has_personal = any(key in entity.attributes for key in personal_attrs)
                  if has_work:
                      file_mappings[entity.id] = mappings["work"]
                  elif has_personal:
                      file_mappings[entity.id] = mappings["personal"]
                  else:
                      file_mappings[entity.id] = mappings["personal"]  # Default
              else:
                  file_mappings[entity.id] = mappings.get("default", "Knowledge Base.md")
      return file_mappings
  \<close>
  \<open>mappings["work"]\<close> raises \<open>KeyError\<close> on a missing key; \<open>subscript\<close> keeps that
  branch.
\<close>

definition subscript :: "(string \<rightharpoonup> 'a) \<Rightarrow> string \<Rightarrow> py_error + 'a" where
  "subscript d k = (case d k of None \<Rightarrow> Inl KeyError | Some v \<Rightarrow> Inr v)"

definition work_attrs :: "string list" where
  "work_attrs = [''job'', ''position'', ''company'', ''work'']"

definition personal_attrs :: "string list" where
  "personal_attrs = [''family'', ''hobby'', ''personal'']"

definition canonical_location :: "'v Entity \<Rightarrow> py_error + string option" where
  "canonical_location entity =
     (case canonical_mappings (ent_type entity) of
        None \<Rightarrow> Inr None
      | Some mappings \<Rightarrow>
          if ent_type entity = PERSON then
            let has_work = list_ex (\<lambda>key. map_of (ent_attributes entity) key \<noteq> None) work_attrs;
                has_personal =
                  list_ex (\<lambda>key. map_of (ent_attributes entity) key \<noteq> None) personal_attrs
            in if has_work then map_sum id Some (subscript mappings ''work'')
               else if has_personal then map_sum id Some (subscript mappings ''personal'')
               else map_sum id Some (subscript mappings ''personal'')
          else Inr (Some (default_to ''Knowledge Base.md'' (mappings ''default''))))"

fun canonical_locations_loop ::
  "'v Entity list \<Rightarrow> (string \<rightharpoonup> string) \<Rightarrow> py_error + (string \<rightharpoonup> string)" where
  "canonical_locations_loop [] file_mappings = Inr file_mappings"
| "canonical_locations_loop (entity # entities) file_mappings =
     (case canonical_location entity of
        Inl err \<Rightarrow> Inl err
      | Inr None \<Rightarrow> canonical_locations_loop entities file_mappings
      | Inr (Some file) \<Rightarrow>
          canonical_locations_loop entities (file_mappings(ent_id entity \<mapsto> file)))"

definition determine_canonical_locations ::
  "'v Entity list \<Rightarrow> py_error + (string \<rightharpoonup> string)" where
  "determine_canonical_locations entities = canonical_locations_loop entities Map.empty"

text \<open>
  \<^verbatim>\<open>
  async def resolve_conflicts(self, entity_id):
      entity = self.entities.get(entity_id)
      if not entity:
          return None
      resolved_attributes = {}
      for key, attributes in entity.attributes.items():
          best = max(attributes, key=lambda x: (x.confidence.value, x.timestamp))
          resolved_attributes[key] = [best]
      entity.attributes = resolved_attributes
      return entity
  \<close>
  An exception of \<open>max\<close> leaves the loop before \<open>entity.attributes\<close> is assigned, so
  the store is then as it was.
\<close>

fun resolve_loop :: "'v attributes \<Rightarrow> 'v attributes \<Rightarrow> py_error + 'v attributes" where
  "resolve_loop [] resolved_attributes = Inr resolved_attributes"
| "resolve_loop ((key, attributes) # items) resolved_attributes =
     (case py_max best_key_less attributes of
        Inl err \<Rightarrow> Inl err
      | Inr best \<Rightarrow> resolve_loop items (AList.update key [best] resolved_attributes))"

definition resolve_conflicts ::
  "'v entities \<Rightarrow> string \<Rightarrow> 'v entities \<times> (py_error + 'v Entity option)" where
  "resolve_conflicts entities entity_id =
     (case entities entity_id of
        None \<Rightarrow> (entities, Inr None)
      | Some entity \<Rightarrow>
          (case resolve_loop (ent_attributes entity) [] of
             Inl err \<Rightarrow> (entities, Inl err)
           | Inr resolved_attributes \<Rightarrow>
               let entity' = entity\<lparr>ent_attributes := resolved_attributes\<rparr>
               in (entities(entity_id \<mapsto> entity'), Inr (Some entity'))))"

section \<open>Agents (knowledge\_agents.py)\<close>

text \<open>
  This module declares its own \<open>EntityType\<close>, \<open>Entity\<close> and \<open>Relationship\<close>; the
  prefix \<open>KA\<close> keeps them apart from those of models/entities.py. Confidence is here a
  number between 0 and 1.
\<close>

datatype KA_EntityType =
  KA_PERSON | KA_ORGANIZATION | KA_LOCATION | KA_CONCEPT | KA_EVENT | KA_OBJECT

datatype InformationStatus = CURRENT | HISTORICAL | PLANNED | STATUS_UNCERTAIN

record Confidence =
  conf_value :: rat
  conf_source :: string
  conf_timestamp :: datetime

record 'v KA_Entity =
  ka_id :: string
  ka_type :: KA_EntityType
  ka_canonical_name :: string
  ka_aliases :: "string list"
  ka_properties :: "(string \<times> 'v) list"
  ka_embeddings :: "rat list option"
  ka_confidence :: Confidence
  ka_created_at :: datetime
  ka_updated_at :: datetime


text \<open>
  \<^verbatim>\<open>
  self.routing_rules = {
      InformationStatus.CURRENT: {
          EntityType.PERSON: lambda e: f"entities/person/{e.id}/current.json",
          EntityType.ORGANIZATION: lambda e: f"entities/org/{e.id}/current.json"},
      InformationStatus.HISTORICAL: {
          EntityType.PERSON: lambda e: f"entities/person/{e.id}/history.json",
          EntityType.ORGANIZATION: lambda e: f"entities/org/{e.id}/history.json"}}

  async def process(self, entity, status):
      rule = self.routing_rules.get(status, {}).get(entity.type)
      if rule:
          return rule(entity)
      return f"entities/generic/{entity.id}/data.json"
  \<close>
\<close>

definition routing_rules ::
  "InformationStatus \<rightharpoonup> (KA_EntityType \<rightharpoonup> ('v KA_Entity \<Rightarrow> string))" where
  "routing_rules =
     [CURRENT \<mapsto>
        [KA_PERSON \<mapsto> (\<lambda>e. ''entities/person/'' @ ka_id e @ ''/current.json''),
         KA_ORGANIZATION \<mapsto> (\<lambda>e. ''entities/org/'' @ ka_id e @ ''/current.json'')],
      HISTORICAL \<mapsto>
        [KA_PERSON \<mapsto> (\<lambda>e. ''entities/person/'' @ ka_id e @ ''/history.json''),
         KA_ORGANIZATION \<mapsto> (\<lambda>e. ''entities/org/'' @ ka_id e @ ''/history.json'')]]"

definition registered_rule ::
  "InformationStatus \<Rightarrow> KA_EntityType \<Rightarrow> ('v KA_Entity \<Rightarrow> string) option" where
  "registered_rule status entity_type = (default_to Map.empty (routing_rules status)) entity_type"

definition CanonicalLocationAgent_process :: "'v KA_Entity \<Rightarrow> InformationStatus \<Rightarrow> string" where
  "CanonicalLocationAgent_process entity status =
     (case registered_rule status (ka_type entity) of
        Some rule \<Rightarrow> rule entity
      | None \<Rightarrow> ''entities/generic/'' @ ka_id entity @ ''/data.json'')"




section \<open>Hybrid search (enhanced\_knowledge\_service.py)\<close>

text \<open>
  A search result is a dict with the keys \<open>id\<close>, \<open>title\<close>, \<open>content\<close>, \<open>score\<close>,
  \<open>type\<close> and, from the entity strategy, \<open>matched_entity\<close>. Scores are floating-point
  numbers in the source and idealised as rationals here. What the three strategies read
  from the database is given: their result lists are arguments.
\<close>

record search_result =
  res_id :: string
  res_title :: string
  res_content :: string
  res_score :: rat
  res_type :: string
  res_matched_entity :: "string option"

text \<open>
  \<^verbatim>\<open>
  def deduplicate_results(self, results):
      seen = set()
      unique = []
      for result in results:
          if result['id'] not in seen:
              seen.add(result['id'])
              unique.append(result)
      return unique
  \<close>
\<close>

fun deduplicate_loop ::
  "search_result list \<Rightarrow> string set \<Rightarrow> search_result list \<Rightarrow> search_result list" where
  "deduplicate_loop [] seen unique = unique"
| "deduplicate_loop (result # results) seen unique =
     (if res_id result \<notin> seen
      then deduplicate_loop results (insert (res_id result) seen) (unique @ [result])
      else deduplicate_loop results seen unique)"

definition deduplicate_results :: "search_result list \<Rightarrow> search_result list" where
  "deduplicate_results results = deduplicate_loop results {} []"

text \<open>
  \<^verbatim>\<open>
  def rank_results(self, results, query):
      combined = defaultdict(lambda: {'score': 0, 'result': None})
      for result in results:
          doc_id = result['id']
          weight = {'semantic': 1.0, 'keyword': 0.8, 'entity': 1.2}.get(result['type'], 1.0)
          if combined[doc_id]['result'] is None:
              combined[doc_id]['result'] = result
          combined[doc_id]['score'] += result['score'] * weight
      ranked = sorted(combined.values(), key=lambda x: x['score'], reverse=True)
      return [item['result'] for item in ranked]
  \<close>
  \<open>combined\<close> is a dict in insertion order whose entries hold the score so far and the
  first result seen for the id. \<open>sorted\<close> is stable, also with \<open>reverse=True\<close>: entries
  of equal score keep their order.
\<close>

definition strategy_weight :: "string \<Rightarrow> rat" where
  "strategy_weight t =
     (if t = ''semantic'' then 1
      else if t = ''keyword'' then 8 / 10
      else if t = ''entity'' then 12 / 10
      else 1)"

definition combine_step ::
  "search_result \<Rightarrow> (string \<times> rat \<times> search_result) list \<Rightarrow> (string \<times> rat \<times> search_result) list" where
  "combine_step result combined =
     (let doc_id = res_id result;
          weight = strategy_weight (res_type result)
      in case map_of combined doc_id of
           None \<Rightarrow> AList.update doc_id (0 + res_score result * weight, result) combined
         | Some (score, first) \<Rightarrow>
             AList.update doc_id (score + res_score result * weight, first) combined)"

definition sorted_reverse :: "('a \<Rightarrow> rat) \<Rightarrow> 'a list \<Rightarrow> 'a list" where
  "sorted_reverse key xs = sort_key (\<lambda>x. - key x) xs"

definition rank_results :: "search_result list \<Rightarrow> search_result list" where
  "rank_results results =
     (let combined = fold combine_step results [];
          ranked = sorted_reverse fst (map snd combined)
      in map snd ranked)"

text \<open>
  \<^verbatim>\<open>
  def search_knowledge(self, query, search_type='hybrid'):
      results = []
      if search_type in ['semantic', 'hybrid'] and self.embedder:
          results.extend(self.semantic_search(query_embedding))
      if search_type in ['keyword', 'hybrid']:
          results.extend(self.keyword_search(query))
      if search_type in ['entity', 'hybrid']:
          results.extend(self.entity_search(query_entities))
      unique_results = self.deduplicate_results(results)
      ranked_results = self.rank_results(unique_results, query)
      return ranked_results[:10]
  \<close>
\<close>

definition gather_results ::
  "string \<Rightarrow> bool \<Rightarrow> search_result list \<Rightarrow> search_result list \<Rightarrow> search_result list
   \<Rightarrow> search_result list" where
  "gather_results search_type embedder semantic keyword entity =
     (if search_type \<in> set [''semantic'', ''hybrid''] \<and> embedder then semantic else [])
     @ (if search_type \<in> set [''keyword'', ''hybrid''] then keyword else [])
     @ (if search_type \<in> set [''entity'', ''hybrid''] then entity else [])"

definition search_knowledge ::
  "string \<Rightarrow> bool \<Rightarrow> search_result list \<Rightarrow> search_result list \<Rightarrow> search_result list
   \<Rightarrow> search_result list" where
  "search_knowledge search_type embedder semantic keyword entity =
     (let results = gather_results search_type embedder semantic keyword entity;
          unique_results = deduplicate_results results;
          ranked_results = rank_results unique_results
      in take 10 ranked_results)"

section \<open>Code search (coding\_knowledge\_service.py)\<close>

text \<open>
  Here a result carries the table it comes from as \<open>type\<close> and the integer row id as
  \<open>id\<close>; full-text rows also carry \<open>text\<close> and \<open>metadata\<close>.
  \<^verbatim>\<open>str\<close> of an integer is its decimal numeral, with a minus sign when negative.
\<close>

record code_result =
  cr_type :: string
  cr_id :: int
  cr_text :: "string option"
  cr_metadata :: "(string \<times> string) list option"
  cr_score :: rat

definition digit_char :: "nat \<Rightarrow> char" where
  "digit_char d = ''0123456789'' ! d"

function str_nat :: "nat \<Rightarrow> string" where
  "str_nat n = (if n < 10 then [digit_char n] else str_nat (n div 10) @ [digit_char (n mod 10)])"
  by pat_completeness auto
termination
  by (relation "measure id") auto

declare str_nat.simps [simp del]

definition str_int :: "int \<Rightarrow> string" where
  "str_int i = (if i < 0 then CHR ''-'' # str_nat (nat (- i)) else str_nat (nat i))"

text \<open>
  \<^verbatim>\<open>
  seen = set()
  unique_results = []
  for result in results:
      key = f"{result['type']}_{result['id']}"
      if key not in seen:
          seen.add(key)
          unique_results.append(result)
  unique_results.sort(key=lambda x: x.get('score', 0), reverse=True)
  return unique_results[:limit]
  \<close>
  \<open>xs[:limit]\<close> with a negative \<open>limit\<close> drops that many elements from the end.
\<close>

definition result_key :: "code_result \<Rightarrow> string" where
  "result_key result = cr_type result @ ''_'' @ str_int (cr_id result)"

fun unique_loop :: "code_result list \<Rightarrow> string set \<Rightarrow> code_result list \<Rightarrow> code_result list" where
  "unique_loop [] seen unique_results = unique_results"
| "unique_loop (result # results) seen unique_results =
     (let key = result_key result
      in if key \<notin> seen
         then unique_loop results (insert key seen) (unique_results @ [result])
         else unique_loop results seen unique_results)"

definition slice_to :: "int \<Rightarrow> 'a list \<Rightarrow> 'a list" where
  "slice_to limit xs =
     (if 0 \<le> limit then take (nat limit) xs else take (length xs - nat (- limit)) xs)"

text \<open>
  The full-text rows come from the virtual table
  \<^verbatim>\<open>
  CREATE VIRTUAL TABLE IF NOT EXISTS search_fts
  USING fts5(table_name, record_id, searchable_text, content=search_index)
  \<close>
  through the query
  \<^verbatim>\<open>
  SELECT table_name, record_id, searchable_text, metadata
  FROM search_fts WHERE searchable_text MATCH ? LIMIT ?
  \<close>
  sqlite3 refuses a statement that selects a column the table does not have:
  \<open>cursor.execute\<close> raises \<open>OperationalError\<close>. The \<open>try\<close> of \<open>search_code\<close> has a
  \<open>finally\<close> and no \<open>except\<close>, so the exception leaves the function. \<open>rows\<close> is what
  the table would deliver.
\<close>

definition search_fts_columns :: "string list" where
  "search_fts_columns = [''table_name'', ''record_id'', ''searchable_text'']"

definition fts_query_columns :: "string list" where
  "fts_query_columns = [''table_name'', ''record_id'', ''searchable_text'', ''metadata'']"

definition fts_execute :: "code_result list \<Rightarrow> py_error + code_result list" where
  "fts_execute rows =
     (if list_all (\<lambda>column. column \<in> set search_fts_columns) fts_query_columns
      then Inr rows else Inl OperationalError)"

text \<open>
  \<^verbatim>\<open>
  def search_code(self, query, search_type='hybrid', limit=10):
      results = []
      try:
          if search_type in ['keyword', 'hybrid']:
              cursor.execute(<the query above>, (query, limit))
              for row in cursor.fetchall():
                  results.append({...})
          if search_type in ['semantic', 'hybrid'] and EMBEDDINGS_AVAILABLE:
              query_embedding = self._generate_embedding(query)
              if query_embedding is not None:
                  results.extend(self._semantic_search(cursor, 'code_examples', ...))
                  results.extend(self._semantic_search(cursor, 'api_references', ...))
          <remove duplicates, sort, slice: see above>
      finally:
          conn.close()
  \<close>
  \<open>embeddings\<close> stands for \<open>EMBEDDINGS_AVAILABLE\<close> together with a query embedding
  that is not \<open>None\<close>; \<open>examples\<close> and \<open>api_refs\<close> are what the two semantic searches
  return.
\<close>

definition gather_code_results ::
  "string \<Rightarrow> bool \<Rightarrow> code_result list \<Rightarrow> code_result list \<Rightarrow> code_result list
   \<Rightarrow> py_error + code_result list" where
  "gather_code_results search_type embeddings fts examples api_refs =
     (case (if search_type \<in> set [''keyword'', ''hybrid''] then fts_execute fts else Inr []) of
        Inl err \<Rightarrow> Inl err
      | Inr keyword_rows \<Rightarrow>
          Inr (keyword_rows
               @ (if search_type \<in> set [''semantic'', ''hybrid''] \<and> embeddings
                  then examples @ api_refs else [])))"

definition unique_by_score :: "int \<Rightarrow> code_result list \<Rightarrow> code_result list" where
  "unique_by_score limit results =
     (let unique_results = unique_loop results {} []
      in slice_to limit (sorted_reverse cr_score unique_results))"

definition search_code ::
  "string \<Rightarrow> bool \<Rightarrow> int \<Rightarrow> code_result list \<Rightarrow> code_result list \<Rightarrow> code_result list
   \<Rightarrow> py_error + code_result list" where
  "search_code search_type embeddings limit fts examples api_refs =
     (case gather_code_results search_type embeddings fts examples api_refs of
        Inl err \<Rightarrow> Inl err
      | Inr results \<Rightarrow> Inr (unique_by_score limit results))"

section \<open>Notions used to state the properties\<close>






section \<open>Properties of content merging\<close>

lemma str_contains_iff: "str_contains existing new \<longleftrightarrow> (\<exists>p s. existing = p @ new @ s)"
proof (induction existing)
  case Nil
  then show ?case by auto
next
  case (Cons c cs)
  show ?case
  proof
    assume "str_contains (c # cs) new"
    then consider "prefix new (c # cs)" | "str_contains cs new" by auto
    then show "\<exists>p s. c # cs = p @ new @ s"
    proof cases
      case 1
      then obtain s where "c # cs = new @ s" by (auto simp: prefix_def)
      then have "c # cs = [] @ new @ s" by simp
      then show ?thesis by blast
    next
      case 2
      with Cons.IH obtain p s where "cs = p @ new @ s" by blast
      then have "c # cs = (c # p) @ new @ s" by simp
      then show ?thesis by blast
    qed
  next
    assume "\<exists>p s. c # cs = p @ new @ s"
    then obtain p s where e: "c # cs = p @ new @ s" by blast
    show "str_contains (c # cs) new"
    proof (cases p)
      case Nil
      with e have "prefix new (c # cs)" by (simp add: prefix_def)
      then show ?thesis by simp
    next
      case (Cons a p')
      with e have "cs = p' @ new @ s" by simp
      with Cons.IH have "str_contains cs new" by blast
      then show ?thesis by simp
    qed
  qed
qed

lemma find_overlap_from_spec:
  "i \<le> length text1 \<Longrightarrow>
   \<exists>j \<le> i. find_overlap_from i text1 text2 = take j text2
        \<and> drop (length text1 - j) text1 = take j text2"
proof (induction i)
  case 0
  then show ?case by simp
next
  case (Suc i)
  show ?case
  proof (cases "drop (length text1 - Suc i) text1 = take (Suc i) text2")
    case True
    then show ?thesis by auto
  next
    case False
    from Suc have "\<exists>j \<le> i. find_overlap_from i text1 text2 = take j text2
        \<and> drop (length text1 - j) text1 = take j text2" by simp
    then obtain j where "j \<le> i" "find_overlap_from i text1 text2 = take j text2"
      "drop (length text1 - j) text1 = take j text2" by blast
    with False show ?thesis by (intro exI [of _ j]) simp
  qed
qed

lemma overlap_merge_contains:
  assumes "overlap = find_overlap existing new"
  shows "\<exists>p. existing @ drop (length overlap) new = p @ new"
proof -
  from find_overlap_from_spec [of "min (length existing) (length new)" existing new]
  obtain j where j: "j \<le> min (length existing) (length new)"
    and ov: "find_overlap existing new = take j new"
    and eq: "drop (length existing - j) existing = take j new"
    by (auto simp: find_overlap_def Let_def)
  from j have len: "length overlap = j" using assms ov by simp
  have "existing = take (length existing - j) existing @ take j new"
    using eq by (metis append_take_drop_id)
  then have "existing @ drop j new = take (length existing - j) existing @ (take j new @ drop j new)"
    by (metis append.assoc)
  then show ?thesis unfolding len by auto
qed

lemma merge_content_contains_new: "str_contains (merge_content existing new) new"
proof -
  consider "str_contains existing new"
    | "\<not> str_contains existing new" "length new < 2 * length (find_overlap existing new)"
    | "\<not> str_contains existing new" "\<not> length new < 2 * length (find_overlap existing new)"
    by blast
  then show ?thesis
  proof cases
    case 1
    then show ?thesis by (simp add: merge_content_def)
  next
    case 2
    from overlap_merge_contains [OF refl, of existing new]
    obtain p where "existing @ drop (length (find_overlap existing new)) new = p @ new @ []"
      by auto
    then have "str_contains (existing @ drop (length (find_overlap existing new)) new) new"
      unfolding str_contains_iff by blast
    with 2 show ?thesis by (simp add: merge_content_def Let_def)
  next
    case 3
    have "existing @ content_separator @ new = (existing @ content_separator) @ new @ []"
      by simp
    then have "str_contains (existing @ content_separator @ new) new"
      unfolding str_contains_iff by blast
    with 3 show ?thesis by (simp add: merge_content_def Let_def)
  qed
qed

text \<open>
  C10. If \<open>new\<close> occurs as a substring of \<open>existing\<close>, \<open>merge_content\<close> returns
  \<open>existing\<close> unchanged; in every case the result begins with \<open>existing\<close>; and
  merging the same \<open>new\<close> a second time changes nothing.
\<close>

theorem merge_content_keeps_existing:
  "((\<exists>p s. existing = p @ new @ s) \<longrightarrow> merge_content existing new = existing)
   \<and> prefix existing (merge_content existing new)
   \<and> merge_content (merge_content existing new) new = merge_content existing new"
proof -
  have "merge_content (merge_content existing new) new = merge_content existing new"
    using merge_content_contains_new [of existing new]
    by (simp add: merge_content_def [of "merge_content existing new"])
  then show ?thesis
    by (simp add: merge_content_def Let_def str_contains_iff)
qed

theorem merge_content_keeps_existing_witness:
  "(\<exists>p s. ''abcdef'' = p @ ''cd'' @ s) \<and> merge_content ''abcdef'' ''cd'' = ''abcdef''
   \<and> prefix ''abcdef'' (merge_content ''abcdef'' ''cd'')"
proof -
  have "''abcdef'' = ''ab'' @ ''cd'' @ ''ef''" by simp
  then have h: "\<exists>p s. ''abcdef'' = p @ ''cd'' @ s" by blast
  from h merge_content_keeps_existing [of "''abcdef''" "''cd''"] show ?thesis by blast
qed

section \<open>Properties of the entity model\<close>

text \<open>
  C9. Constructing an \<open>Entity\<close> at time \<open>now\<close> sets \<open>updated_at\<close> to \<open>now\<close>; the value the
  caller supplies for it, if any, has no influence on the instance; and rebuilding an
  entity from its own \<open>dict()\<close> returns it with \<open>updated_at\<close> replaced by the time of
  the rebuild. So no instance carries an \<open>updated_at\<close> earlier than its construction.
\<close>

theorem Entity_updated_at_is_construction_time:
  "ent_updated_at (Entity_init now kw) = now
   \<and> Entity_init now (kw\<lparr>kw_updated_at := v\<rparr>) = Entity_init now kw
   \<and> Entity_init now (Entity_dict e) = e\<lparr>ent_updated_at := now\<rparr>"
  by (simp add: Entity_init_def Entity_dict_def set_updated_at_def default_to_def)

text \<open>
  C3. Re-observing a stored attribute value, or a stored relationship, with the
  confidence \<open>LOW\<close> when the stored confidence is \<open>HIGH\<close> replaces \<open>HIGH\<close> by \<open>LOW\<close>,
  although \<open>LOW\<close> is the lower level: the comparison is made on the strings
  \<open>''low''\<close> and \<open>''high''\<close>.
\<close>

theorem reobservation_downgrades_confidence:
  "map attr_confidence
     (versions_of
        (ent_attributes
           (add_attribute 2
              \<lparr>ent_id = ''person_julian'', ent_type = PERSON, ent_name = ''Julian'',
                ent_aliases = [],
                ent_attributes =
                  [(''job'', [\<lparr>attr_key = ''job'', attr_value = ''designer'',
                               attr_confidence = HIGH, attr_source = ''user'',
                               attr_timestamp = 1, attr_version = 1\<rparr>])],
                ent_embeddings = None, ent_canonical_file = None, ent_confidence = HIGH,
                ent_created_at = 1, ent_updated_at = 1, ent_sources = []\<rparr>
              ''job'' ''designer'' ''user'' LOW))
        ''job'') = [LOW]
   \<and> map rel_confidence
       (add_relationship 2
          [\<lparr>rel_id = ''rel_person_julian_organization_apple_works_at'', rel_type = WORKS_AT,
            rel_source_entity_id = ''person_julian'',
            rel_target_entity_id = ''organization_apple'',
            rel_attributes = [] :: (string \<times> string) list, rel_confidence = HIGH,
            rel_temporal_context = None, rel_created_at = 1, rel_updated_at = 1,
            rel_source = ''user''\<rparr>]
          \<lparr>rel_id = ''rel_person_julian_organization_apple_works_at'', rel_type = WORKS_AT,
            rel_source_entity_id = ''person_julian'',
            rel_target_entity_id = ''organization_apple'',
            rel_attributes = [], rel_confidence = LOW,
            rel_temporal_context = None, rel_created_at = 2, rel_updated_at = 2,
            rel_source = ''user''\<rparr>) = [LOW]
   \<and> ConfidenceLevel_rank LOW < ConfidenceLevel_rank HIGH"
  by (simp add: add_attribute_def versions_of_def reobserve_def add_relationship_def
      same_triple_def reobserve_relationship_def)

section \<open>Properties of conflict resolution in the graph manager\<close>

lemma resolve_conflicts_unknown_id:
  "entities entity_id = None \<Longrightarrow> resolve_conflicts entities entity_id = (entities, Inr None)"
  by (simp add: resolve_conflicts_def)

lemma resolve_conflicts_no_attributes:
  "entities entity_id = Some entity \<Longrightarrow> ent_attributes entity = [] \<Longrightarrow>
   resolve_conflicts entities entity_id = (entities, Inr (Some entity))"
  by (simp add: resolve_conflicts_def fun_upd_idem)

text \<open>
  C8. For a stored entity whose attribute key \<open>job\<close> maps to an empty version list,
  \<open>resolve_conflicts\<close> raises \<open>ValueError\<close> (from \<open>max\<close> of an empty sequence), while
  \<open>get_best_attribute\<close>, which takes the same maximum, returns \<open>None\<close> for that key.
\<close>

theorem resolve_conflicts_raises_on_empty_versions:
  "snd (resolve_conflicts
          [''person_julian'' \<mapsto>
             \<lparr>ent_id = ''person_julian'', ent_type = PERSON, ent_name = ''Julian'',
               ent_aliases = [],
               ent_attributes = [(''job'', [] :: string Attribute list)],
               ent_embeddings = None, ent_canonical_file = None, ent_confidence = HIGH,
               ent_created_at = 1, ent_updated_at = 1, ent_sources = []\<rparr>]
          ''person_julian'') = Inl ValueError
   \<and> get_best_attribute
         \<lparr>ent_id = ''person_julian'', ent_type = PERSON, ent_name = ''Julian'',
           ent_aliases = [],
           ent_attributes = [(''job'', [] :: string Attribute list)],
           ent_embeddings = None, ent_canonical_file = None, ent_confidence = HIGH,
           ent_created_at = 1, ent_updated_at = 1, ent_sources = []\<rparr>
         ''job'' = Inr None"
  by (simp add: resolve_conflicts_def get_best_attribute_def)

section \<open>Attribute history under ingest and conflict resolution\<close>






































section \<open>Order of the conflict-resolution rules\<close>







section \<open>Routing of persons in the graph manager\<close>

lemma has_key_iff:
  "list_ex (\<lambda>key. map_of attributes key \<noteq> None) keys \<longleftrightarrow> set (map fst attributes) \<inter> set keys \<noteq> {}"
  by (auto simp: list_ex_iff map_of_eq_None_iff)

lemma canonical_location_person:
  "ent_type entity = PERSON \<Longrightarrow>
   canonical_location entity =
     Inr (Some (if set (map fst (ent_attributes entity)) \<inter> set work_attrs \<noteq> {}
                then ''Professional Journey.md'' else ''Personal Info.md''))"
  unfolding canonical_location_def has_key_iff
  by (simp add: canonical_mappings_def subscript_def Let_def)

lemma canonical_location_total: "\<exists>r. canonical_location entity = Inr r"
  by (cases "ent_type entity")
     (simp_all add: canonical_location_def canonical_mappings_def subscript_def Let_def)

lemma canonical_locations_loop_total:
  "\<exists>m. canonical_locations_loop entities file_mappings = Inr m
       \<and> (\<forall>k. k \<notin> ent_id ` set entities \<longrightarrow> m k = file_mappings k)"
proof (induction entities arbitrary: file_mappings)
  case Nil
  then show ?case by simp
next
  case (Cons entity entities)
  obtain r where r: "canonical_location entity = Inr r"
    using canonical_location_total by blast
  show ?case
  proof (cases r)
    case None
    with r Cons.IH [of file_mappings] show ?thesis by auto
  next
    case (Some dest)
    from Cons.IH [of "file_mappings(ent_id entity \<mapsto> dest)"]
    obtain m where m: "canonical_locations_loop entities (file_mappings(ent_id entity \<mapsto> dest)) = Inr m"
      and keep: "\<forall>k. k \<notin> ent_id ` set entities \<longrightarrow> m k = (file_mappings(ent_id entity \<mapsto> dest)) k"
      by blast
    from keep have "\<forall>k. k \<notin> ent_id ` set (entity # entities) \<longrightarrow> m k = file_mappings k"
      by simp
    with m r Some show ?thesis by simp
  qed
qed

lemma canonical_locations_loop_append:
  "canonical_locations_loop (xs @ ys) file_mappings =
     (case canonical_locations_loop xs file_mappings of
        Inl err \<Rightarrow> Inl err
      | Inr m \<Rightarrow> canonical_locations_loop ys m)"
  by (induction xs arbitrary: file_mappings) (auto split: sum.splits option.splits)

text \<open>
  C7. For a person entity in the list given to \<open>determine_canonical_locations\<close> (no later
  entity of the list having the same id, which would overwrite its entry), the call
  succeeds and maps the entity id to the work destination when the attribute keys meet
  the work vocabulary, otherwise to the personal destination when they meet the personal
  vocabulary, and to the personal destination when they meet neither.
\<close>

theorem person_routing:
  assumes "ent_type entity = PERSON" and "ent_id entity \<notin> ent_id ` set later"
  shows "\<exists>file_mappings.
           determine_canonical_locations (earlier @ entity # later) = Inr file_mappings
           \<and> file_mappings (ent_id entity) =
               Some (if set (map fst (ent_attributes entity)) \<inter> {''job'', ''position'', ''company'', ''work''} \<noteq> {}
                     then ''Professional Journey.md''
                     else if set (map fst (ent_attributes entity)) \<inter> {''family'', ''hobby'', ''personal''} \<noteq> {}
                     then ''Personal Info.md''
                     else ''Personal Info.md'')"
proof -
  obtain m0 where m0: "canonical_locations_loop earlier Map.empty = Inr m0"
    using canonical_locations_loop_total by blast
  let ?file = "if set (map fst (ent_attributes entity)) \<inter> set work_attrs \<noteq> {}
               then ''Professional Journey.md'' else ''Personal Info.md''"
  obtain m where m: "canonical_locations_loop later (m0(ent_id entity \<mapsto> ?file)) = Inr m"
    and keep: "\<forall>k. k \<notin> ent_id ` set later \<longrightarrow> m k = (m0(ent_id entity \<mapsto> ?file)) k"
    using canonical_locations_loop_total by blast
  have "determine_canonical_locations (earlier @ entity # later) = Inr m"
    using m0 m assms(1)
    by (simp add: determine_canonical_locations_def canonical_locations_loop_append
        canonical_location_person)
  moreover have "m (ent_id entity) = Some ?file"
    using keep assms(2) by simp
  ultimately show ?thesis
    by (simp add: work_attrs_def)
qed


theorem person_routing_witness:
  "ent_type
     \<lparr>ent_id = ''person_julian'', ent_type = PERSON, ent_name = ''Julian'', ent_aliases = [],
       ent_attributes =
         [(''family'', [] :: string Attribute list), (''company'', [])],
       ent_embeddings = None, ent_canonical_file = None, ent_confidence = HIGH,
       ent_created_at = 1, ent_updated_at = 1, ent_sources = []\<rparr> = PERSON
   \<and> ''person_julian'' \<notin> ent_id ` set ([] :: string Entity list)
   \<and> (\<exists>file_mappings.
         determine_canonical_locations
           ([\<lparr>ent_id = ''organization_apple'', ent_type = ORGANIZATION, ent_name = ''Apple'',
               ent_aliases = [], ent_attributes = [],
               ent_embeddings = None, ent_canonical_file = None, ent_confidence = HIGH,
               ent_created_at = 1, ent_updated_at = 1, ent_sources = []\<rparr>]
            @ \<lparr>ent_id = ''person_julian'', ent_type = PERSON, ent_name = ''Julian'',
                ent_aliases = [],
                ent_attributes =
                  [(''family'', [] :: string Attribute list), (''company'', [])],
                ent_embeddings = None, ent_canonical_file = None, ent_confidence = HIGH,
                ent_created_at = 1, ent_updated_at = 1, ent_sources = []\<rparr>
            # []) = Inr file_mappings
         \<and> file_mappings ''person_julian'' = Some ''Professional Journey.md'')"
  using person_routing
    [of "\<lparr>ent_id = ''person_julian'', ent_type = PERSON, ent_name = ''Julian'',
           ent_aliases = [],
           ent_attributes =
             [(''family'', [] :: string Attribute list), (''company'', [])],
           ent_embeddings = None, ent_canonical_file = None, ent_confidence = HIGH,
           ent_created_at = 1, ent_updated_at = 1, ent_sources = []\<rparr>"
        "[]"
        "[\<lparr>ent_id = ''organization_apple'', ent_type = ORGANIZATION, ent_name = ''Apple'',
            ent_aliases = [], ent_attributes = [],
            ent_embeddings = None, ent_canonical_file = None, ent_confidence = HIGH,
            ent_created_at = 1, ent_updated_at = 1, ent_sources = []\<rparr>]"]
  by simp

section \<open>Routing by the agent and by the graph manager\<close>

lemma canonical_location_other:
  "ent_type entity \<noteq> PERSON \<Longrightarrow>
   canonical_location entity =
     Inr (if ent_type entity = ORGANIZATION then Some ''Professional Journey.md''
          else if ent_type entity = PROJECT then Some ''Projects.md''
          else None)"
  by (cases "ent_type entity")
     (simp_all add: canonical_location_def canonical_mappings_def default_to_def)

text \<open>
  C4, as the code has it. \<open>CanonicalLocationAgent.process\<close> is total: for every entity of
  its six types and every status it returns a non-empty destination, and where no rule is
  registered (the status is not \<open>CURRENT\<close> or \<open>HISTORICAL\<close>, or the type is not
  \<open>PERSON\<close> or \<open>ORGANIZATION\<close>) the destination is the generic one, built from the
  entity id alone. \<open>determine_canonical_locations\<close> never raises either, but it gives a
  destination to persons, organizations and projects only, each time a fixed file name;
  an entity of any other declared type gets no entry in the result. This is stated for an
  entity whose id no other entity of the list has.
\<close>

theorem routing_agent_total_manager_partial:
  "CanonicalLocationAgent_process entity status \<noteq> []
   \<and> ((status \<notin> {CURRENT, HISTORICAL} \<or> ka_type entity \<notin> {KA_PERSON, KA_ORGANIZATION})
      \<longrightarrow> CanonicalLocationAgent_process entity status
           = ''entities/generic/'' @ ka_id entity @ ''/data.json'')
   \<and> (ent_id e \<notin> ent_id ` set (earlier @ later) \<longrightarrow>
        (\<exists>file_mappings.
           determine_canonical_locations (earlier @ e # later) = Inr file_mappings
           \<and> file_mappings (ent_id e) =
               (if ent_type e = PERSON
                then Some (if set (map fst (ent_attributes e))
                                \<inter> {''job'', ''position'', ''company'', ''work''} \<noteq> {}
                           then ''Professional Journey.md'' else ''Personal Info.md'')
                else if ent_type e = ORGANIZATION then Some ''Professional Journey.md''
                else if ent_type e = PROJECT then Some ''Projects.md''
                else None)))"
proof -
  have agent: "CanonicalLocationAgent_process entity status \<noteq> []
   \<and> ((status \<notin> {CURRENT, HISTORICAL} \<or> ka_type entity \<notin> {KA_PERSON, KA_ORGANIZATION})
      \<longrightarrow> CanonicalLocationAgent_process entity status
           = ''entities/generic/'' @ ka_id entity @ ''/data.json'')"
    by (cases status; cases "ka_type entity")
       (simp_all add: CanonicalLocationAgent_process_def registered_rule_def routing_rules_def
          default_to_def)
  have manager: "\<exists>file_mappings.
           determine_canonical_locations (earlier @ e # later) = Inr file_mappings
           \<and> file_mappings (ent_id e) =
               (if ent_type e = PERSON
                then Some (if set (map fst (ent_attributes e))
                                \<inter> {''job'', ''position'', ''company'', ''work''} \<noteq> {}
                           then ''Professional Journey.md'' else ''Personal Info.md'')
                else if ent_type e = ORGANIZATION then Some ''Professional Journey.md''
                else if ent_type e = PROJECT then Some ''Projects.md''
                else None)"
    if fresh: "ent_id e \<notin> ent_id ` set (earlier @ later)"
  proof -
    let ?dest = "if ent_type e = PERSON
                then Some (if set (map fst (ent_attributes e)) \<inter> set work_attrs \<noteq> {}
                           then ''Professional Journey.md'' else ''Personal Info.md'')
                else if ent_type e = ORGANIZATION then Some ''Professional Journey.md''
                else if ent_type e = PROJECT then Some ''Projects.md''
                else None"
    have loc: "canonical_location e = Inr ?dest"
      using canonical_location_person [of e] canonical_location_other [of e]
      by (cases "ent_type e = PERSON") simp_all
    obtain m0 where m0: "canonical_locations_loop earlier Map.empty = Inr m0"
      and keep0: "\<forall>k. k \<notin> ent_id ` set earlier \<longrightarrow> m0 k = Map.empty k"
      using canonical_locations_loop_total by blast
    from fresh have ne: "ent_id e \<notin> ent_id ` set earlier" and nl: "ent_id e \<notin> ent_id ` set later"
      by auto
    have none0: "m0 (ent_id e) = None"
      using keep0 [rule_format, OF ne] by simp
    let ?m1 = "case ?dest of None \<Rightarrow> m0 | Some d \<Rightarrow> m0(ent_id e \<mapsto> d)"
    have m1: "?m1 (ent_id e) = ?dest"
      using none0 by (simp split: option.splits)
    obtain m where m: "canonical_locations_loop later ?m1 = Inr m"
      and keep: "\<forall>k. k \<notin> ent_id ` set later \<longrightarrow> m k = ?m1 k"
      using canonical_locations_loop_total by blast
    have step: "canonical_locations_loop (e # later) m0 = canonical_locations_loop later ?m1"
      using loc by (simp split: option.splits)
    have "determine_canonical_locations (earlier @ e # later) = Inr m"
      using m0 m step
      by (simp only: determine_canonical_locations_def canonical_locations_loop_append sum.case)
    moreover have "m (ent_id e) = ?m1 (ent_id e)"
      by (rule keep [rule_format, OF nl])
    ultimately show ?thesis
      using m1 by (simp add: work_attrs_def)
  qed
  from agent manager show ?thesis by blast
qed

theorem routing_agent_total_manager_partial_witness:
  "PLANNED \<notin> {CURRENT, HISTORICAL}
   \<and> CanonicalLocationAgent_process
       \<lparr>ka_id = ''person_julian'', ka_type = KA_PERSON, ka_canonical_name = ''Julian'',
         ka_aliases = [], ka_properties = [(''employer'', ''Apple'')], ka_embeddings = None,
         ka_confidence = \<lparr>conf_value = 9 / 10, conf_source = ''user'', conf_timestamp = 1\<rparr>,
         ka_created_at = 1, ka_updated_at = 1\<rparr>
       PLANNED = ''entities/generic/person_julian/data.json''
   \<and> ''organization_apple''
       \<notin> ent_id ` set ([\<lparr>ent_id = ''person_julian'', ent_type = PERSON, ent_name = ''Julian'', ent_aliases = [],
                                 ent_attributes = [(''company'', [] :: string Attribute list)],
                                 ent_embeddings = None, ent_canonical_file = None, ent_confidence = HIGH,
                                 ent_created_at = 1, ent_updated_at = 1, ent_sources = []\<rparr>]
                        @ [\<lparr>ent_id = ''skill_python'', ent_type = SKILL, ent_name = ''Python'', ent_aliases = [],
                             ent_attributes = [] :: (string \<times> string Attribute list) list,
                             ent_embeddings = None, ent_canonical_file = None, ent_confidence = HIGH,
                             ent_created_at = 1, ent_updated_at = 1, ent_sources = []\<rparr>])
   \<and> map_sum id (\<lambda>file_mappings. file_mappings ''organization_apple'')
       (determine_canonical_locations
          ([\<lparr>ent_id = ''person_julian'', ent_type = PERSON, ent_name = ''Julian'', ent_aliases = [],
              ent_attributes = [(''company'', [] :: string Attribute list)],
              ent_embeddings = None, ent_canonical_file = None, ent_confidence = HIGH,
              ent_created_at = 1, ent_updated_at = 1, ent_sources = []\<rparr>]
           @ \<lparr>ent_id = ''organization_apple'', ent_type = ORGANIZATION, ent_name = ''Apple'', ent_aliases = [],
               ent_attributes = [] :: (string \<times> string Attribute list) list,
               ent_embeddings = None, ent_canonical_file = None, ent_confidence = HIGH,
               ent_created_at = 1, ent_updated_at = 1, ent_sources = []\<rparr>
           # [\<lparr>ent_id = ''skill_python'', ent_type = SKILL, ent_name = ''Python'', ent_aliases = [],
                ent_attributes = [] :: (string \<times> string Attribute list) list,
                ent_embeddings = None, ent_canonical_file = None, ent_confidence = HIGH,
                ent_created_at = 1, ent_updated_at = 1, ent_sources = []\<rparr>]))
     = Inr (Some ''Professional Journey.md'')"
  using routing_agent_total_manager_partial
    [where status = PLANNED
       and entity = "\<lparr>ka_id = ''person_julian'', ka_type = KA_PERSON, ka_canonical_name = ''Julian'',
                       ka_aliases = [], ka_properties = [(''employer'', ''Apple'')], ka_embeddings = None,
                       ka_confidence = \<lparr>conf_value = 9 / 10, conf_source = ''user'', conf_timestamp = 1\<rparr>,
                       ka_created_at = 1, ka_updated_at = 1\<rparr>"
       and e = "\<lparr>ent_id = ''organization_apple'', ent_type = ORGANIZATION, ent_name = ''Apple'', ent_aliases = [],
                  ent_attributes = [] :: (string \<times> string Attribute list) list,
                  ent_embeddings = None, ent_canonical_file = None, ent_confidence = HIGH,
                  ent_created_at = 1, ent_updated_at = 1, ent_sources = []\<rparr>"
       and earlier = "[\<lparr>ent_id = ''person_julian'', ent_type = PERSON, ent_name = ''Julian'', ent_aliases = [],
                         ent_attributes = [(''company'', [] :: string Attribute list)],
                         ent_embeddings = None, ent_canonical_file = None, ent_confidence = HIGH,
                         ent_created_at = 1, ent_updated_at = 1, ent_sources = []\<rparr>]"
       and later = "[\<lparr>ent_id = ''skill_python'', ent_type = SKILL, ent_name = ''Python'', ent_aliases = [],
                       ent_attributes = [] :: (string \<times> string Attribute list) list,
                       ent_embeddings = None, ent_canonical_file = None, ent_confidence = HIGH,
                       ent_created_at = 1, ent_updated_at = 1, ent_sources = []\<rparr>]"]
  by auto

text \<open>
  C4, as the claim states it, fails for the router of the graph manager: for an entity of
  the declared type \<open>SKILL\<close>, \<open>determine_canonical_locations\<close> returns a mapping with
  no destination for the entity.
\<close>

theorem unregistered_type_unrouted_counterexample:
  "map_sum id (\<lambda>file_mappings. file_mappings ''skill_python'')
     (determine_canonical_locations
        [\<lparr>ent_id = ''skill_python'', ent_type = SKILL, ent_name = ''Python'', ent_aliases = [],
           ent_attributes = [] :: (string \<times> string Attribute list) list,
           ent_embeddings = None, ent_canonical_file = None, ent_confidence = HIGH,
           ent_created_at = 1, ent_updated_at = 1, ent_sources = []\<rparr>])
   = Inr None"
  by (simp add: determine_canonical_locations_def canonical_location_def canonical_mappings_def)

section \<open>Ranking in hybrid search\<close>

text \<open>
  C6. Document \<open>d1\<close> is returned by the semantic strategy with score 0.6 and by the
  keyword strategy with score 5; document \<open>d2\<close> by the semantic strategy with score 0.9.
  The weighted sums are 0.6 + 5 * 0.8 = 4.6 for \<open>d1\<close> and 0.9 for \<open>d2\<close>, and
  \<open>rank_results\<close> applied to the three results ranks \<open>d1\<close> first. \<open>search_knowledge\<close>
  removes the keyword result of \<open>d1\<close> before it ranks, and returns \<open>d2\<close> first.
\<close>

theorem hybrid_scores_do_not_accumulate:
  "map res_id
     (search_knowledge ''hybrid'' True
        [\<lparr>res_id = ''d2'', res_title = ''B'', res_content = ''b'', res_score = 9 / 10,
           res_type = ''semantic'', res_matched_entity = None\<rparr>,
         \<lparr>res_id = ''d1'', res_title = ''A'', res_content = ''a'', res_score = 6 / 10,
           res_type = ''semantic'', res_matched_entity = None\<rparr>]
        [\<lparr>res_id = ''d1'', res_title = ''A'', res_content = ''a'', res_score = 5,
           res_type = ''keyword'', res_matched_entity = None\<rparr>]
        []) = [''d2'', ''d1'']
   \<and> map res_id
       (rank_results
          [\<lparr>res_id = ''d2'', res_title = ''B'', res_content = ''b'', res_score = 9 / 10,
             res_type = ''semantic'', res_matched_entity = None\<rparr>,
           \<lparr>res_id = ''d1'', res_title = ''A'', res_content = ''a'', res_score = 6 / 10,
             res_type = ''semantic'', res_matched_entity = None\<rparr>,
           \<lparr>res_id = ''d1'', res_title = ''A'', res_content = ''a'', res_score = 5,
             res_type = ''keyword'', res_matched_entity = None\<rparr>]) = [''d1'', ''d2'']
   \<and> (9 / 10 :: rat) * strategy_weight ''semantic''
       < 6 / 10 * strategy_weight ''semantic'' + 5 * strategy_weight ''keyword''"
  by (simp add: search_knowledge_def gather_results_def deduplicate_results_def
      rank_results_def combine_step_def strategy_weight_def sorted_reverse_def Let_def)

section \<open>Deduplication of search results\<close>

lemma find_refine:
  "find P xs = Some r \<Longrightarrow> Q r \<Longrightarrow> (\<And>x. Q x \<Longrightarrow> P x) \<Longrightarrow> find Q xs = Some r"
  by (induction xs) (auto split: if_splits)

lemma distinct_map_coarser:
  "distinct (map f xs) \<Longrightarrow> (\<And>x y. g x = g y \<Longrightarrow> f x = f y) \<Longrightarrow> distinct (map g xs)"
proof (induction xs)
  case Nil
  show ?case by simp
next
  case (Cons x xs)
  from Cons.prems(1) have fresh: "f x \<notin> f ` set xs" and rest: "distinct (map f xs)"
    by simp_all
  have "g x \<notin> g ` set xs"
  proof
    assume "g x \<in> g ` set xs"
    then obtain y where y: "y \<in> set xs" and gxy: "g x = g y" by blast
    from gxy have "f x = f y" by (rule Cons.prems(2))
    with y fresh show False by blast
  qed
  moreover have "distinct (map g xs)"
    using rest Cons.prems(2) by (rule Cons.IH)
  ultimately show ?case by simp
qed

lemma update_fresh: "k \<notin> fst ` set al \<Longrightarrow> AList.update k v al = al @ [(k, v)]"
  by (induction al) auto

lemma deduplicate_loop_distinct:
  "distinct (map res_id unique) \<Longrightarrow> res_id ` set unique \<subseteq> seen \<Longrightarrow>
   distinct (map res_id (deduplicate_loop results seen unique))"
proof (induction results arbitrary: seen unique)
  case Nil
  then show ?case by simp
next
  case (Cons result results)
  show ?case
  proof (cases "res_id result \<in> seen")
    case True
    with Cons.IH [OF Cons.prems] show ?thesis by simp
  next
    case False
    with Cons.prems have "distinct (map res_id (unique @ [result]))"
      and "res_id ` set (unique @ [result]) \<subseteq> insert (res_id result) seen"
      by auto
    from Cons.IH [OF this] False show ?thesis by simp
  qed
qed

lemma deduplicate_loop_first:
  "r \<in> set (deduplicate_loop results seen unique) \<Longrightarrow>
   r \<in> set unique \<or> (res_id r \<notin> seen \<and> find (\<lambda>x. res_id x = res_id r) results = Some r)"
proof (induction results arbitrary: seen unique)
  case Nil
  then show ?case by simp
next
  case (Cons result results)
  show ?case
  proof (cases "res_id result \<in> seen")
    case True
    with Cons.prems have "r \<in> set (deduplicate_loop results seen unique)" by simp
    from Cons.IH [OF this] True show ?thesis by auto
  next
    case False
    with Cons.prems
    have "r \<in> set (deduplicate_loop results (insert (res_id result) seen) (unique @ [result]))"
      by simp
    from Cons.IH [OF this] False show ?thesis by auto
  qed
qed

lemma fold_combine_step_distinct:
  "distinct (map res_id results) \<Longrightarrow> res_id ` set results \<inter> fst ` set combined = {} \<Longrightarrow>
   fold combine_step results combined =
     combined @ map (\<lambda>r. (res_id r, 0 + res_score r * strategy_weight (res_type r), r)) results"
proof (induction results arbitrary: combined)
  case Nil
  then show ?case by simp
next
  case (Cons result results)
  from Cons.prems have fresh: "res_id result \<notin> fst ` set combined" by auto
  then have none: "map_of combined (res_id result) = None"
    by (simp add: map_of_eq_None_iff)
  have step: "combine_step result combined =
      combined @ [(res_id result, 0 + res_score result * strategy_weight (res_type result), result)]"
    using none fresh by (simp add: combine_step_def Let_def update_fresh)
  have "res_id ` set results \<inter> fst ` set (combine_step result combined) = {}"
    using Cons.prems unfolding step by auto
  with Cons.IH [of "combine_step result combined"] Cons.prems(1) show ?case
    by (simp add: step)
qed

lemma mset_rank_results:
  "distinct (map res_id results) \<Longrightarrow> mset (rank_results results) = mset results"
proof -
  assume "distinct (map res_id results)"
  then have combined: "fold combine_step results [] =
      map (\<lambda>r. (res_id r, 0 + res_score r * strategy_weight (res_type r), r)) results"
    using fold_combine_step_distinct [of results "[]"] by simp
  let ?entries = "map snd (fold combine_step results [])"
  have entries: "map snd ?entries = results"
    unfolding combined by (simp add: comp_def)
  have "mset (rank_results results) = image_mset snd (mset (sort_key (\<lambda>x. - fst x) ?entries))"
    by (simp add: rank_results_def sorted_reverse_def Let_def)
  also have "\<dots> = image_mset snd (mset ?entries)"
    by (simp only: mset_sort)
  also have "\<dots> = mset (map snd ?entries)"
    by (simp only: mset_map)
  finally show ?thesis
    unfolding entries .
qed

lemma distinct_rank_results:
  assumes "distinct (map res_id results)"
  shows "distinct (map res_id (rank_results results))"
proof -
  have "mset (map res_id (rank_results results)) = mset (map res_id results)"
    using mset_rank_results [OF assms] by simp
  then show ?thesis
    using assms mset_eq_imp_distinct_iff by blast
qed

lemma search_knowledge_ids:
  "distinct (map res_id (search_knowledge search_type embedder semantic keyword entity))"
proof -
  have "distinct (map res_id (deduplicate_results
          (gather_results search_type embedder semantic keyword entity)))"
    unfolding deduplicate_results_def by (rule deduplicate_loop_distinct) simp_all
  then have "distinct (map res_id (rank_results (deduplicate_results
          (gather_results search_type embedder semantic keyword entity))))"
    by (rule distinct_rank_results)
  then show ?thesis
    by (simp add: search_knowledge_def Let_def take_map [symmetric])
qed

lemma search_knowledge_first:
  assumes "r \<in> set (search_knowledge search_type embedder semantic keyword entity)"
  shows "find (\<lambda>x. res_id x = res_id r)
           (gather_results search_type embedder semantic keyword entity) = Some r"
proof -
  let ?all = "gather_results search_type embedder semantic keyword entity"
  have d: "distinct (map res_id (deduplicate_results ?all))"
    unfolding deduplicate_results_def by (rule deduplicate_loop_distinct) simp_all
  from assms have "r \<in> set (rank_results (deduplicate_results ?all))"
    by (auto simp: search_knowledge_def Let_def dest: in_set_takeD)
  then have "r \<in># mset (rank_results (deduplicate_results ?all))" by simp
  then have "r \<in> set (deduplicate_results ?all)"
    unfolding mset_rank_results [OF d] by simp
  then show ?thesis
    unfolding deduplicate_results_def by (auto dest: deduplicate_loop_first)
qed

lemma unique_loop_distinct:
  "distinct (map result_key unique) \<Longrightarrow> result_key ` set unique \<subseteq> seen \<Longrightarrow>
   distinct (map result_key (unique_loop results seen unique))"
proof (induction results arbitrary: seen unique)
  case Nil
  then show ?case by simp
next
  case (Cons result results)
  show ?case
  proof (cases "result_key result \<in> seen")
    case True
    with Cons.IH [OF Cons.prems] show ?thesis by simp
  next
    case False
    with Cons.prems have "distinct (map result_key (unique @ [result]))"
      and "result_key ` set (unique @ [result]) \<subseteq> insert (result_key result) seen"
      by auto
    from Cons.IH [OF this] False show ?thesis by (simp add: Let_def)
  qed
qed

lemma unique_loop_first:
  "r \<in> set (unique_loop results seen unique) \<Longrightarrow>
   r \<in> set unique \<or> (result_key r \<notin> seen \<and> find (\<lambda>x. result_key x = result_key r) results = Some r)"
proof (induction results arbitrary: seen unique)
  case Nil
  then show ?case by simp
next
  case (Cons result results)
  show ?case
  proof (cases "result_key result \<in> seen")
    case True
    with Cons.prems have "r \<in> set (unique_loop results seen unique)" by simp
    from Cons.IH [OF this] True show ?thesis by auto
  next
    case False
    with Cons.prems
    have "r \<in> set (unique_loop results (insert (result_key result) seen) (unique @ [result]))"
      by (simp add: Let_def)
    from Cons.IH [OF this] False show ?thesis by auto
  qed
qed

lemma set_slice_to: "set (slice_to limit xs) \<subseteq> set xs"
  by (auto simp: slice_to_def dest: in_set_takeD)

lemma distinct_map_slice_to: "distinct (map f xs) \<Longrightarrow> distinct (map f (slice_to limit xs))"
  by (simp add: slice_to_def take_map [symmetric])

lemma distinct_map_sorted_reverse:
  "distinct (map f xs) \<Longrightarrow> distinct (map f (sorted_reverse key xs))"
proof -
  assume d: "distinct (map f xs)"
  have "mset (map f (sorted_reverse key xs)) = mset (map f xs)"
    by (simp add: sorted_reverse_def)
  then show ?thesis using d mset_eq_imp_distinct_iff by blast
qed

lemma unique_by_score_keys: "distinct (map result_key (unique_by_score limit results))"
  unfolding unique_by_score_def Let_def
  by (intro distinct_map_slice_to distinct_map_sorted_reverse unique_loop_distinct) simp_all

lemma unique_by_score_first:
  assumes "r \<in> set (unique_by_score limit results)"
  shows "find (\<lambda>x. result_key x = result_key r) results = Some r"
proof -
  from assms have "r \<in> set (slice_to limit (sorted_reverse cr_score (unique_loop results {} [])))"
    by (simp add: unique_by_score_def Let_def)
  then have "r \<in> set (sorted_reverse cr_score (unique_loop results {} []))"
    by (rule subsetD [OF set_slice_to])
  then have "r \<in> set (unique_loop results {} [])"
    by (simp add: sorted_reverse_def)
  then show ?thesis
    by (auto dest: unique_loop_first)
qed

lemma search_code_keyword_raises:
  "search_type \<in> {''keyword'', ''hybrid''} \<Longrightarrow>
   search_code search_type embeddings limit fts examples api_refs = Inl OperationalError"
  by (auto simp: search_code_def gather_code_results_def fts_execute_def search_fts_columns_def
      fts_query_columns_def)

text \<open>
  C5. In every search mode, hence in hybrid mode, the list returned by \<open>search_knowledge\<close>
  holds no two results with the same (type, id) pair, and every result returned is the
  first occurrence of its id in the gathered results of all strategies. The same holds
  of the deduplication of \<open>search_code\<close> for every list of gathered results, with the
  (type, id) pair as the item; and whenever \<open>search_code\<close> returns a list, that list is
  this deduplication of what its strategies gathered.
\<close>

theorem search_results_unique:
  "distinct (map (\<lambda>r. (res_type r, res_id r))
      (search_knowledge search_type embedder semantic keyword entity))
   \<and> (\<forall>r \<in> set (search_knowledge search_type embedder semantic keyword entity).
        find (\<lambda>x. res_id x = res_id r)
          (gather_results search_type embedder semantic keyword entity) = Some r)
   \<and> distinct (map (\<lambda>r. (cr_type r, cr_id r)) (unique_by_score limit results))
   \<and> (\<forall>r \<in> set (unique_by_score limit results).
        find (\<lambda>x. (cr_type x, cr_id x) = (cr_type r, cr_id r)) results = Some r)
   \<and> (search_code mode embeddings limit fts examples api_refs = Inr returned \<longrightarrow>
        (\<exists>gathered.
           gather_code_results mode embeddings fts examples api_refs = Inr gathered
           \<and> returned = unique_by_score limit gathered))"
proof -
  have 1: "distinct (map (\<lambda>r. (res_type r, res_id r))
      (search_knowledge search_type embedder semantic keyword entity))"
    using search_knowledge_ids by (rule distinct_map_coarser) simp
  have 3: "distinct (map (\<lambda>r. (cr_type r, cr_id r)) (unique_by_score limit results))"
    using unique_by_score_keys by (rule distinct_map_coarser) (simp add: result_key_def)
  have 4: "find (\<lambda>x. (cr_type x, cr_id x) = (cr_type r, cr_id r)) results = Some r"
    if "r \<in> set (unique_by_score limit results)" for r
    using unique_by_score_first [OF that] by (rule find_refine) (simp_all add: result_key_def)
  have 5: "\<exists>gathered.
           gather_code_results mode embeddings fts examples api_refs = Inr gathered
           \<and> returned = unique_by_score limit gathered"
    if "search_code mode embeddings limit fts examples api_refs = Inr returned"
    using that by (auto simp: search_code_def split: sum.splits)
  from 1 3 4 5 search_knowledge_first show ?thesis by blast
qed

theorem search_results_unique_witness:
  "\<lparr>res_id = ''d1'', res_title = ''A'', res_content = ''a'', res_score = 6 / 10,
     res_type = ''semantic'', res_matched_entity = None\<rparr>
     \<in> set (search_knowledge ''hybrid'' True
              [\<lparr>res_id = ''d2'', res_title = ''B'', res_content = ''b'', res_score = 9 / 10,
                 res_type = ''semantic'', res_matched_entity = None\<rparr>,
               \<lparr>res_id = ''d1'', res_title = ''A'', res_content = ''a'', res_score = 6 / 10,
                 res_type = ''semantic'', res_matched_entity = None\<rparr>]
              [\<lparr>res_id = ''d1'', res_title = ''A'', res_content = ''a'', res_score = 5,
                 res_type = ''keyword'', res_matched_entity = None\<rparr>]
              [])
   \<and> find (\<lambda>x. res_id x = ''d1'')
        (gather_results ''hybrid'' True
           [\<lparr>res_id = ''d2'', res_title = ''B'', res_content = ''b'', res_score = 9 / 10,
              res_type = ''semantic'', res_matched_entity = None\<rparr>,
            \<lparr>res_id = ''d1'', res_title = ''A'', res_content = ''a'', res_score = 6 / 10,
              res_type = ''semantic'', res_matched_entity = None\<rparr>]
           [\<lparr>res_id = ''d1'', res_title = ''A'', res_content = ''a'', res_score = 5,
              res_type = ''keyword'', res_matched_entity = None\<rparr>]
           [])
      = Some \<lparr>res_id = ''d1'', res_title = ''A'', res_content = ''a'', res_score = 6 / 10,
               res_type = ''semantic'', res_matched_entity = None\<rparr>
   \<and> \<lparr>cr_type = ''code_examples'', cr_id = 7, cr_text = Some ''def f'', cr_metadata = Some [],
       cr_score = 1\<rparr>
       \<in> set (unique_by_score 10
                [\<lparr>cr_type = ''code_examples'', cr_id = 7, cr_text = Some ''def f'',
                   cr_metadata = Some [], cr_score = 1\<rparr>,
                 \<lparr>cr_type = ''code_examples'', cr_id = 7, cr_text = None,
                   cr_metadata = None, cr_score = 8 / 10\<rparr>,
                 \<lparr>cr_type = ''api_references'', cr_id = 7, cr_text = None,
                   cr_metadata = None, cr_score = 9 / 10\<rparr>])
   \<and> find (\<lambda>x. (cr_type x, cr_id x) = (''code_examples'', 7))
        [\<lparr>cr_type = ''code_examples'', cr_id = 7, cr_text = Some ''def f'',
           cr_metadata = Some [], cr_score = 1\<rparr>,
         \<lparr>cr_type = ''code_examples'', cr_id = 7, cr_text = None,
           cr_metadata = None, cr_score = 8 / 10\<rparr>,
         \<lparr>cr_type = ''api_references'', cr_id = 7, cr_text = None,
           cr_metadata = None, cr_score = 9 / 10\<rparr>]
      = Some \<lparr>cr_type = ''code_examples'', cr_id = 7, cr_text = Some ''def f'',
               cr_metadata = Some [], cr_score = 1\<rparr>
   \<and> search_code ''semantic'' True 10 []
       [\<lparr>cr_type = ''code_examples'', cr_id = 7, cr_text = None,
          cr_metadata = None, cr_score = 8 / 10\<rparr>]
       [\<lparr>cr_type = ''api_references'', cr_id = 7, cr_text = None,
          cr_metadata = None, cr_score = 9 / 10\<rparr>]
     = Inr [\<lparr>cr_type = ''api_references'', cr_id = 7, cr_text = None,
              cr_metadata = None, cr_score = 9 / 10\<rparr>,
            \<lparr>cr_type = ''code_examples'', cr_id = 7, cr_text = None,
              cr_metadata = None, cr_score = 8 / 10\<rparr>]
   \<and> gather_code_results ''semantic'' True []
       [\<lparr>cr_type = ''code_examples'', cr_id = 7, cr_text = None,
          cr_metadata = None, cr_score = 8 / 10\<rparr>]
       [\<lparr>cr_type = ''api_references'', cr_id = 7, cr_text = None,
          cr_metadata = None, cr_score = 9 / 10\<rparr>]
     = Inr [\<lparr>cr_type = ''code_examples'', cr_id = 7, cr_text = None,
              cr_metadata = None, cr_score = 8 / 10\<rparr>,
            \<lparr>cr_type = ''api_references'', cr_id = 7, cr_text = None,
              cr_metadata = None, cr_score = 9 / 10\<rparr>]"
proof -
  let ?sem = "[\<lparr>res_id = ''d2'', res_title = ''B'', res_content = ''b'', res_score = 9 / 10,
                 res_type = ''semantic'', res_matched_entity = None\<rparr>,
               \<lparr>res_id = ''d1'', res_title = ''A'', res_content = ''a'', res_score = 6 / 10,
                 res_type = ''semantic'', res_matched_entity = None\<rparr>]"
  let ?kw = "[\<lparr>res_id = ''d1'', res_title = ''A'', res_content = ''a'', res_score = 5,
                 res_type = ''keyword'', res_matched_entity = None\<rparr>]"
  let ?results = "[\<lparr>cr_type = ''code_examples'', cr_id = 7, cr_text = Some ''def f'',
                     cr_metadata = Some [], cr_score = 1\<rparr>,
                   \<lparr>cr_type = ''code_examples'', cr_id = 7, cr_text = None,
                     cr_metadata = None, cr_score = 8 / 10\<rparr>,
                   \<lparr>cr_type = ''api_references'', cr_id = 7, cr_text = None,
                     cr_metadata = None, cr_score = 9 / 10\<rparr>]"
  let ?ex = "[\<lparr>cr_type = ''code_examples'', cr_id = 7, cr_text = None,
                   cr_metadata = None, cr_score = 8 / 10\<rparr>]"
  let ?api = "[\<lparr>cr_type = ''api_references'', cr_id = 7, cr_text = None,
                   cr_metadata = None, cr_score = 9 / 10\<rparr>]"
  have r: "\<lparr>res_id = ''d1'', res_title = ''A'', res_content = ''a'', res_score = 6 / 10,
             res_type = ''semantic'', res_matched_entity = None\<rparr>
           \<in> set (search_knowledge ''hybrid'' True ?sem ?kw [])"
    by (simp add: search_knowledge_def gather_results_def deduplicate_results_def
        rank_results_def combine_step_def strategy_weight_def sorted_reverse_def Let_def)
  have c: "\<lparr>cr_type = ''code_examples'', cr_id = 7, cr_text = Some ''def f'',
             cr_metadata = Some [], cr_score = 1\<rparr>
           \<in> set (unique_by_score 10 ?results)"
    by (simp add: unique_by_score_def result_key_def str_int_def
        str_nat.simps digit_char_def sorted_reverse_def slice_to_def Let_def)
  have s: "search_code ''semantic'' True 10 [] ?ex ?api = Inr (?api @ ?ex)"
    by (simp add: search_code_def gather_code_results_def unique_by_score_def result_key_def
        str_int_def str_nat.simps digit_char_def sorted_reverse_def slice_to_def Let_def)
  have g: "gather_code_results ''semantic'' True [] ?ex ?api = Inr (?ex @ ?api)"
    by (simp add: gather_code_results_def)
  from search_results_unique
         [where search_type = "''hybrid''" and embedder = True and semantic = ?sem
            and keyword = ?kw and entity = "[]" and limit = 10 and results = ?results
            and mode = "''semantic''" and embeddings = True and fts = "[]"
            and examples = ?ex and api_refs = ?api and returned = "?api @ ?ex"]
       r c s g
  show ?thesis by force
qed

end
